theory Spec2Isabelle
  imports Complex_Main "HOL-Library.AList" "HOL-Library.Sublist"
begin

section \<open>Python values and exceptions\<close>

text \<open>
  The payloads handled by \<^verbatim>\<open>mlrun/runtimes/base.py\<close> are JSON-like Python
  values: nested dicts with string keys. A dict is an association list with unique keys in
  insertion order. A finite float is the real number it denotes (the code only compares
  floats, it never computes with them; infinities and NaN are outside the model). An
  exception object held as a value (\<^verbatim>\<open>RunError(arg)\<close>) is \<open>PExc arg\<close>.
\<close>

datatype pyval =
    PNone
  | PBool bool
  | PInt int
  | PFloat real
  | PStr string
  | PList "pyval list"
  | PDict "(string \<times> pyval) list"
  | PExc pyval

text \<open>
  The exceptions the modelled code can raise. \<open>RunError v\<close> is
  \<^verbatim>\<open>class RunError(Exception)\<close> with its argument; the others are Python's builtins.
\<close>

datatype py_error = TypeError | AttributeError | IndexError | ValueError string | RunError pyval

text \<open>Python's truth value of an object (\<^verbatim>\<open>if x:\<close>, \<^verbatim>\<open>not x\<close>, \<^verbatim>\<open>x or y\<close>).\<close>

fun truthy :: "pyval \<Rightarrow> bool" where
  "truthy PNone = False"
| "truthy (PBool b) = b"
| "truthy (PInt i) = (i \<noteq> 0)"
| "truthy (PFloat r) = (r \<noteq> 0)"
| "truthy (PStr s) = (s \<noteq> [])"
| "truthy (PList l) = (l \<noteq> [])"
| "truthy (PDict d) = (d \<noteq> [])"
| "truthy (PExc m) = True"

text \<open>Python's \<^verbatim>\<open>key in s\<close> for two strings: \<open>key\<close> occurs in \<open>s\<close> as a substring.\<close>

fun str_contains :: "string \<Rightarrow> string \<Rightarrow> bool" where
  "str_contains key [] = (key = [])"
| "str_contains key (c # cs) = (prefix key (c # cs) \<or> str_contains key cs)"

text \<open>The numeric value of an object that Python orders against a float; \<open>None\<close> for the
  objects whose comparison with a float raises \<^verbatim>\<open>TypeError\<close>.\<close>

fun num_of :: "pyval \<Rightarrow> real option" where
  "num_of (PInt i) = Some (real_of_int i)"
| "num_of (PFloat r) = Some r"
| "num_of (PBool b) = Some (if b then 1 else 0)"
| "num_of v = None"

text \<open>\<^verbatim>\<open>str.split('.')\<close>: the pieces of a dotted key.\<close>

fun split_dot :: "string \<Rightarrow> string list" where
  "split_dot [] = [[]]"
| "split_dot (c # cs) =
     (if c = CHR ''.'' then [] # split_dot cs
      else (case split_dot cs of [] \<Rightarrow> [[c]] | p # ps \<Rightarrow> (c # p) # ps))"

section \<open>Nested lookup and update (\<^verbatim>\<open>mlrun.utils\<close>)\<close>

text \<open>
  Modelled from the spec: \<^verbatim>\<open>get_in\<close> of \<^verbatim>\<open>mlrun/utils.py\<close>, which
  \<^verbatim>\<open>base.py\<close> imports, is not among the sources. The spec gives the payload shape
  \<^verbatim>\<open>{metadata:{uid,project,iteration}, status:{state, outputs, error?}}\<close>, a dict of
  dicts; \<^verbatim>\<open>get_in(obj, keys, default)\<close> walks the key path:
  \<^verbatim>\<open>
  for key in keys:
      if not obj or key not in obj:
          return default
      obj = obj[key]
  return obj
  \<close>
  A dotted string path is split by the caller (\<open>split_dot\<close>). On an object that is not a
  dict Python's own operators decide: a falsy object gives the default, \<^verbatim>\<open>in\<close> on a
  string is the substring test and on a list membership (indexing either by a string then
  raises), and \<^verbatim>\<open>in\<close> on a number or an exception object raises.
\<close>

fun get_in :: "pyval \<Rightarrow> string list \<Rightarrow> pyval \<Rightarrow> py_error + pyval" where
  "get_in obj [] dflt = Inr obj"
| "get_in obj (key # keys) dflt =
     (if \<not> truthy obj then Inr dflt
      else (case obj of
          PDict d \<Rightarrow> (case map_of d key of None \<Rightarrow> Inr dflt | Some v \<Rightarrow> get_in v keys dflt)
        | PStr s \<Rightarrow> (if str_contains key s then Inl TypeError else Inr dflt)
        | PList l \<Rightarrow> (if PStr key \<in> set l then Inl TypeError else Inr dflt)
        | _ \<Rightarrow> Inl TypeError))"

text \<open>
  Modelled from the spec: \<^verbatim>\<open>update_in\<close> of \<^verbatim>\<open>mlrun/utils.py\<close> is not among the
  sources either. \<^verbatim>\<open>update_in(obj, key, value)\<close> sets the value at a key path of a
  nested dict, creating the dicts on the way that are missing:
  \<^verbatim>\<open>
  for part in parts[:-1]:
      sub = obj.get(part, missing)
      if sub is missing:
          sub = obj[part] = {}
      obj = sub
  last_key = parts[-1]
  if last_key not in obj:
      obj[last_key] = {}
  obj[last_key] = value
  \<close>
  The Python mutates \<open>obj\<close> in place; the model returns the updated object. An object on
  the path that is not a dict has no \<^verbatim>\<open>get\<close> (AttributeError) and, at the last key,
  no item assignment by a string key (TypeError).
\<close>

fun update_in :: "pyval \<Rightarrow> string list \<Rightarrow> pyval \<Rightarrow> py_error + pyval" where
  "update_in obj [] v = Inl IndexError"
| "update_in (PDict d) [k] v = Inr (PDict (AList.update k v d))"
| "update_in (PDict d) (k # k' # ks) v =
     (case update_in (case map_of d k of None \<Rightarrow> PDict [] | Some sub \<Rightarrow> sub) (k' # ks) v of
        Inl e \<Rightarrow> Inl e
      | Inr sub' \<Rightarrow> Inr (PDict (AList.update k sub' d)))"
| "update_in obj [k] v = Inl TypeError"
| "update_in obj (k # k' # ks) v = Inl AttributeError"

section \<open>The result selector\<close>

text \<open>
  Python's \<^verbatim>\<open>sys.float_info.min\<close> is the smallest positive normalized double, 2 to the
  power -1022, and \<^verbatim>\<open>sys.float_info.max\<close> the largest finite double, (2^53 - 1) * 2^971.
\<close>

definition float_info_min :: real where
  "float_info_min = 1 / 2 ^ 1022"

definition float_info_max :: real where
  "float_info_max = (2 ^ 53 - 1) * 2 ^ 971"

text \<open>
  The criterion is split at its first dot (\<^verbatim>\<open>idx = criteria.find('.')\<close>): without a dot
  the operator is \<^verbatim>\<open>'max'\<close> and the field the whole string, otherwise
  \<^verbatim>\<open>op = criteria[:idx]\<close> and \<^verbatim>\<open>criteria = criteria[idx + 1:]\<close>.
\<close>

definition criteria_op :: "string \<Rightarrow> string" where
  "criteria_op c =
     (if CHR ''.'' \<notin> set c then ''max'' else takeWhile (\<lambda>x. x \<noteq> CHR ''.'') c)"

definition criteria_field :: "string \<Rightarrow> string" where
  "criteria_field c =
     (if CHR ''.'' \<notin> set c then c else tl (dropWhile (\<lambda>x. x \<noteq> CHR ''.'') c))"

text \<open>
  The loop of \<^verbatim>\<open>selector\<close> over \<open>results\<close>, with the counter \<open>i\<close> and the running
  \<open>(best_id, best_item, best_val)\<close>:
  \<^verbatim>\<open>
  state = get_in(task, ['status', 'state'])
  id = get_in(task, ['metadata', 'iteration'])
  val = get_in(task, ['status', 'outputs', criteria])
  if state != 'error' and val is not None:
      if (op == 'max' and val > best_val) or (op == 'min' and val < best_val):
          best_id, best_item, best_val = id, i, val
  i += 1
  \<close>
  \<open>best_val\<close> starts as a float and is only replaced by a value that was compared with
  it, so it is always a number; comparing a value that is not a number raises TypeError.
\<close>

fun selector_scan ::
  "string \<Rightarrow> string \<Rightarrow> pyval list \<Rightarrow> nat \<Rightarrow> pyval \<times> nat \<times> real \<Rightarrow>
   py_error + (pyval \<times> nat \<times> real)" where
  "selector_scan opr criteria [] i best = Inr best"
| "selector_scan opr criteria (task # rest) i (best_id, best_item, best_val) =
     (case get_in task [''status'', ''state''] PNone of Inl e \<Rightarrow> Inl e | Inr state \<Rightarrow>
      (case get_in task [''metadata'', ''iteration''] PNone of Inl e \<Rightarrow> Inl e | Inr ident \<Rightarrow>
      (case get_in task [''status'', ''outputs'', criteria] PNone of Inl e \<Rightarrow> Inl e | Inr val \<Rightarrow>
        (if state \<noteq> PStr ''error'' \<and> val \<noteq> PNone then
           (case num_of val of
              None \<Rightarrow> Inl TypeError
            | Some v \<Rightarrow>
                (if (opr = ''max'' \<and> v > best_val) \<or> (opr = ''min'' \<and> v < best_val)
                 then selector_scan opr criteria rest (i + 1) (ident, i, v)
                 else selector_scan opr criteria rest (i + 1) (best_id, best_item, best_val)))
         else selector_scan opr criteria rest (i + 1) (best_id, best_item, best_val)))))"

text \<open>
  \<^verbatim>\<open>selector(results, criteria)\<close> returns the pair \<open>(best_item, best_id)\<close>: the index
  in \<open>results\<close> and the iteration id of the elected task. An absent criterion
  (\<^verbatim>\<open>None\<close> or the empty string) and an unsupported operator both return \<open>(0, 0)\<close>.
\<close>

definition selector :: "pyval list \<Rightarrow> string option \<Rightarrow> py_error + (nat \<times> pyval)" where
  "selector results criteria =
     (case criteria of
        None \<Rightarrow> Inr (0, PInt 0)
      | Some c \<Rightarrow>
          (if c = [] then Inr (0, PInt 0)
           else if criteria_op c = ''max'' then
             (case selector_scan ''max'' (criteria_field c) results 0 (PInt 0, 0, float_info_min) of
                Inl e \<Rightarrow> Inl e
              | Inr (best_id, best_item, best_val) \<Rightarrow> Inr (best_item, best_id))
           else if criteria_op c = ''min'' then
             (case selector_scan ''min'' (criteria_field c) results 0 (PInt 0, 0, float_info_max) of
                Inl e \<Rightarrow> Inl e
              | Inr (best_id, best_item, best_val) \<Rightarrow> Inr (best_item, best_id))
           else Inr (0, PInt 0)))"

section \<open>Rendering values as text\<close>

text \<open>
  \<^verbatim>\<open>str(v)\<close> and \<^verbatim>\<open>'{}'.format(v)\<close>: a string is itself, an int its decimal digits,
  an exception its argument's text. The text of a float, a list or a dict is not modelled:
  it is the parameter \<open>repr\<close>.
\<close>

definition digit_char :: "nat \<Rightarrow> char" where
  "digit_char n = ''0123456789'' ! n"

fun dec_nat :: "nat \<Rightarrow> string" where
  "dec_nat n = (if n < 10 then [digit_char n] else dec_nat (n div 10) @ [digit_char (n mod 10)])"

declare dec_nat.simps [simp del]

definition dec_int :: "int \<Rightarrow> string" where
  "dec_int i = (if i < 0 then CHR ''-'' # dec_nat (nat (- i)) else dec_nat (nat i))"

fun py_str :: "(pyval \<Rightarrow> string) \<Rightarrow> pyval \<Rightarrow> string" where
  "py_str repr (PStr s) = s"
| "py_str repr (PInt i) = dec_int i"
| "py_str repr (PBool b) = (if b then ''True'' else ''False'')"
| "py_str repr PNone = ''None''"
| "py_str repr (PExc v) = py_str repr v"
| "py_str repr v = repr v"

section \<open>Run objects\<close>

text \<open>
  Modelled from the spec: \<^verbatim>\<open>RunObject\<close> and its \<^verbatim>\<open>to_dict\<close> live in
  \<^verbatim>\<open>mlrun/model.py\<close>, which is not among the sources. The spec's Task Descriptor has
  the identity \<open>(project, uid, iteration)\<close>, a spec (parameters, selection criterion) and a
  status (state, outputs, error); each attribute holds a Python value, \<open>PNone\<close> when unset.
  \<^verbatim>\<open>to_dict\<close> gives the payload shape
  \<^verbatim>\<open>{metadata:{uid,project,iteration}, spec:{...}, status:{state, outputs, error?}}\<close>,
  leaving out an attribute that is None and a dict that is empty.
\<close>

record run_metadata =
  uid :: pyval
  project :: pyval
  iteration :: pyval

record run_spec =
  parameters :: "(string \<times> pyval) list"
  spec_selector :: "string option"

record run_status =
  state :: pyval
  error :: pyval
  outputs :: "(string \<times> pyval) list"

record run_object =
  metadata :: run_metadata
  spec :: run_spec
  status :: run_status

definition opt_item :: "string \<Rightarrow> pyval \<Rightarrow> (string \<times> pyval) list" where
  "opt_item k v = (if v = PNone then [] else [(k, v)])"

definition dict_item :: "string \<Rightarrow> (string \<times> pyval) list \<Rightarrow> (string \<times> pyval) list" where
  "dict_item k d = (if d = [] then [] else [(k, PDict d)])"

definition to_dict :: "run_object \<Rightarrow> pyval" where
  "to_dict t =
     PDict (dict_item ''metadata''
              (opt_item ''uid'' (uid (metadata t)) @ opt_item ''project'' (project (metadata t))
               @ opt_item ''iteration'' (iteration (metadata t)))
          @ dict_item ''spec''
              (dict_item ''parameters'' (parameters (spec t))
               @ opt_item ''selector''
                   (case spec_selector (spec t) of None \<Rightarrow> PNone | Some c \<Rightarrow> PStr c))
          @ dict_item ''status''
              (opt_item ''state'' (state (status t)) @ opt_item ''error'' (error (status t))
               @ dict_item ''outputs'' (outputs (status t))))"

section \<open>The run store\<close>

text \<open>
  Modelled from the spec: the run database (\<^verbatim>\<open>mlrun/db\<close>) is an external collaborator
  and not among the sources. The spec gives its interface: \<^verbatim>\<open>store(descriptor, key)\<close>,
  \<^verbatim>\<open>update(partialStatus, key)\<close> and \<^verbatim>\<open>read(key)\<close> with
  \<^verbatim>\<open>key = (uid[-iteration], project)\<close>. The store is a map from keys to payloads;
  reading a key that is not stored gives \<^verbatim>\<open>None\<close>; an update sets each dotted key of
  the partial status in the stored payload, and is dropped when nothing is stored under the
  key or the stored payload cannot take it (store failures are never fatal).
\<close>

type_synonym run_db = "pyval \<times> pyval \<Rightarrow> pyval option"

definition db_store_run :: "run_db \<Rightarrow> pyval \<Rightarrow> pyval \<Rightarrow> pyval \<Rightarrow> run_db" where
  "db_store_run db struct key proj = db((key, proj) \<mapsto> struct)"

definition db_read_run :: "run_db \<Rightarrow> pyval \<Rightarrow> pyval \<Rightarrow> pyval" where
  "db_read_run db key proj = (case db (key, proj) of None \<Rightarrow> PNone | Some run \<Rightarrow> run)"

fun apply_updates :: "pyval \<Rightarrow> (string \<times> pyval) list \<Rightarrow> py_error + pyval" where
  "apply_updates obj [] = Inr obj"
| "apply_updates obj ((k, v) # ups) =
     (case update_in obj (split_dot k) v of Inl e \<Rightarrow> Inl e | Inr obj' \<Rightarrow> apply_updates obj' ups)"

definition db_update_run :: "run_db \<Rightarrow> (string \<times> pyval) list \<Rightarrow> pyval \<Rightarrow> pyval \<Rightarrow> run_db" where
  "db_update_run db updates key proj =
     (case db (key, proj) of
        None \<Rightarrow> db
      | Some run \<Rightarrow>
          (case apply_updates run updates of Inl e \<Rightarrow> db | Inr run' \<Rightarrow> db((key, proj) \<mapsto> run')))"

section \<open>The runtime object\<close>

text \<open>
  \<^verbatim>\<open>class FunctionSpec\<close> and \<^verbatim>\<open>class RunRuntime\<close>, with the attributes the
  modelled methods use. \<^verbatim>\<open>FunctionSpec.__init__\<close> stores \<^verbatim>\<open>image or ''\<close> and
  \<^verbatim>\<open>mode or ''\<close>, so both are strings. Modelled from the spec: \<^verbatim>\<open>ImageBuilder\<close>
  (\<^verbatim>\<open>mlrun/model.py\<close>) is not among the sources; the spec's Build Descriptor has a base
  image, a list of build commands and a nullable build-pod handle, and \<^verbatim>\<open>_build_image\<close>
  also reads \<^verbatim>\<open>build.source\<close>. \<^verbatim>\<open>self._db_conn\<close> is \<open>None\<close> or the connected
  store, held here with its contents.
\<close>

record function_spec =
  command :: string
  args :: "string list"
  image :: string
  mode :: string
  rundb :: string

record image_builder =
  source :: "string option"
  base_image :: "string option"
  commands :: "string list"
  build_pod :: "string option"

record runtime =
  kind :: string
  spec :: function_spec
  build :: image_builder
  is_built :: bool
  db_conn :: "run_db option"

section \<open>Persisting a run: \<^verbatim>\<open>store_run\<close>, \<^verbatim>\<open>_get_db_run\<close>, \<^verbatim>\<open>_post_run\<close>\<close>

text \<open>
  A method of \<^verbatim>\<open>RunRuntime\<close> takes the runtime object \<open>self\<close> and returns it updated.
  A leading underscore of a method's name is dropped.
  \<^verbatim>\<open>
  def store_run(self, runobj: RunObject, commit=True):
      if self._db_conn and runobj:
          project = runobj.metadata.project
          uid = runobj.metadata.uid
          iter = runobj.metadata.iteration
          if iter:
              uid = '{}-{}'.format(uid, iter)
          self._db_conn.store_run(runobj.to_dict(), uid, project, commit)
  \<close>
\<close>

definition store_run :: "(pyval \<Rightarrow> string) \<Rightarrow> runtime \<Rightarrow> run_object option \<Rightarrow> runtime" where
  "store_run repr self runobj =
     (case (db_conn self, runobj) of
        (Some db, Some t) \<Rightarrow>
          (let proj = project (metadata t);
               key = uid (metadata t);
               iter = iteration (metadata t);
               key = (if truthy iter then PStr (py_str repr key @ ''-'' @ py_str repr iter) else key)
           in self\<lparr>db_conn := Some (db_store_run db (to_dict t) key proj)\<rparr>)
      | _ \<Rightarrow> self)"

text \<open>
  \<^verbatim>\<open>
  def _get_db_run(self, task: RunObject = None):
      if self._db_conn and task:
          project = task.metadata.project
          uid = task.metadata.uid
          iter = task.metadata.iteration
          if iter:
              uid = '{}-{}'.format(uid, iter)
          return self._db_conn.read_run(uid, project, False)
      if task:
          return task.to_dict()
  \<close>
\<close>

definition get_db_run :: "(pyval \<Rightarrow> string) \<Rightarrow> runtime \<Rightarrow> run_object option \<Rightarrow> pyval" where
  "get_db_run repr self task =
     (case (db_conn self, task) of
        (Some db, Some t) \<Rightarrow>
          (let proj = project (metadata t);
               key = uid (metadata t);
               iter = iteration (metadata t);
               key = (if truthy iter then PStr (py_str repr key @ ''-'' @ py_str repr iter) else key)
           in db_read_run db key proj)
      | (None, Some t) \<Rightarrow> to_dict t
      | _ \<Rightarrow> PNone)"

text \<open>
  The state normalization of \<^verbatim>\<open>_post_run\<close> (\<open>now\<close> is \<^verbatim>\<open>str(datetime.now())\<close>);
  it returns the payload, updated in place by the Python, and the \<open>updates\<close> dict:
  \<^verbatim>\<open>
  updates = {'status.last_update': str(datetime.now())}
  if get_in(resp, 'status.state', '') != 'error' and not err:
      updates['status.state'] = 'completed'
      update_in(resp, 'status.state', 'completed')
  else:
      updates['status.state'] = 'error'
      update_in(resp, 'status.state', 'error')
      if err:
          update_in(resp, 'status.error', err)
      err = get_in(resp, 'status.error')
      if err:
          updates['status.error'] = err
  \<close>
\<close>

definition post_run_state ::
  "string \<Rightarrow> pyval \<Rightarrow> pyval \<Rightarrow> py_error + (pyval \<times> (string \<times> pyval) list)" where
  "post_run_state now resp err =
     (let updates = [(''status.last_update'', PStr now)] in
      case get_in resp (split_dot ''status.state'') (PStr '''') of Inl e \<Rightarrow> Inl e | Inr st \<Rightarrow>
        (if st \<noteq> PStr ''error'' \<and> \<not> truthy err then
           (case update_in resp (split_dot ''status.state'') (PStr ''completed'') of
              Inl e \<Rightarrow> Inl e
            | Inr resp \<Rightarrow> Inr (resp, AList.update ''status.state'' (PStr ''completed'') updates))
         else
           (case update_in resp (split_dot ''status.state'') (PStr ''error'') of
              Inl e \<Rightarrow> Inl e
            | Inr resp \<Rightarrow>
               (case (if truthy err then update_in resp (split_dot ''status.error'') err
                      else Inr resp) of
                  Inl e \<Rightarrow> Inl e
                | Inr resp \<Rightarrow>
                   (case get_in resp (split_dot ''status.error'') PNone of
                      Inl e \<Rightarrow> Inl e
                    | Inr err \<Rightarrow>
                       Inr (resp,
                            (if truthy err
                             then AList.update ''status.error'' err
                                    (AList.update ''status.state'' (PStr ''error'') updates)
                             else AList.update ''status.state'' (PStr ''error'') updates)))))))"

text \<open>
  \<^verbatim>\<open>
  def _post_run(self, resp: dict = None, task: RunObject = None, err=None):
      if resp is None and task:
          resp = self._get_db_run(task)
      if resp is None:
          return None
      if not isinstance(resp, dict):
          raise ValueError('post_run called with type {}'.format(type(resp)))
      ... (the normalization above) ...
      if self._db_conn:
          project = get_in(resp, 'metadata.project')
          uid = get_in(resp, 'metadata.uid')
          iter = get_in(resp, 'metadata.iteration', 0)
          if iter:
              uid = '{}-{}'.format(uid, iter)
          self._db_conn.update_run(updates, uid, project)
      return resp
  \<close>
  The result is what the call returns or raises, with the runtime object as the call
  leaves it.
\<close>

definition post_run ::
  "(pyval \<Rightarrow> string) \<Rightarrow> string \<Rightarrow> runtime \<Rightarrow> pyval \<Rightarrow> run_object option \<Rightarrow> pyval \<Rightarrow>
   (py_error + pyval) \<times> runtime" where
  "post_run repr now self resp task err =
     (let resp = (if resp = PNone \<and> task \<noteq> None then get_db_run repr self task else resp) in
      if resp = PNone then (Inr PNone, self)
      else (case resp of
          PDict d \<Rightarrow>
            (case post_run_state now resp err of
               Inl e \<Rightarrow> (Inl e, self)
             | Inr (resp, updates) \<Rightarrow>
                (case db_conn self of
                   None \<Rightarrow> (Inr resp, self)
                 | Some db \<Rightarrow>
                    (case get_in resp (split_dot ''metadata.project'') PNone of
                       Inl e \<Rightarrow> (Inl e, self)
                     | Inr proj \<Rightarrow>
                    (case get_in resp (split_dot ''metadata.uid'') PNone of
                       Inl e \<Rightarrow> (Inl e, self)
                     | Inr key \<Rightarrow>
                    (case get_in resp (split_dot ''metadata.iteration'') (PInt 0) of
                       Inl e \<Rightarrow> (Inl e, self)
                     | Inr iter \<Rightarrow>
                        (let key = (if truthy iter
                                    then PStr (py_str repr key @ ''-'' @ py_str repr iter)
                                    else key)
                         in (Inr resp,
                             self\<lparr>db_conn := Some (db_update_run db updates key proj)\<rparr>)))))))
        | _ \<Rightarrow> (Inl (ValueError ''post_run called with type''), self)))"

section \<open>The execution context\<close>

text \<open>
  Modelled from the spec: \<^verbatim>\<open>MLClientCtx\<close> (\<^verbatim>\<open>mlrun/execution.py\<close>) is not among the
  sources. It is the batch's own record: the run it was created from, the aggregate state
  with its error message, the logged iteration results (elected iteration id, summary table,
  elected task) and the logged artifacts. \<^verbatim>\<open>set_state(state, error)\<close> follows the spec's
  aggregate policy: with an error message the state becomes \<open>error\<close> and the message is
  kept, otherwise the state becomes the one given. An argument left out is the empty
  string. \<^verbatim>\<open>to_dict\<close> gives the payload \<^verbatim>\<open>{metadata, status:{state, error?, iterations?}}\<close>.
  What the context writes to the run store by itself is outside the model.
\<close>

record ml_client_ctx =
  ctx_run :: pyval
  ctx_state :: string
  ctx_error :: "string option"
  ctx_iterations :: "(pyval \<times> pyval \<times> pyval) option"
  ctx_artifacts :: "(string \<times> pyval) list"

definition ctx_from_dict :: "pyval \<Rightarrow> ml_client_ctx" where
  "ctx_from_dict attrs =
     \<lparr>ctx_run = attrs, ctx_state = ''created'', ctx_error = None, ctx_iterations = None,
      ctx_artifacts = []\<rparr>"

definition set_state :: "ml_client_ctx \<Rightarrow> string \<Rightarrow> string \<Rightarrow> ml_client_ctx" where
  "set_state ctx st err =
     (if err \<noteq> [] then ctx\<lparr>ctx_state := ''error'', ctx_error := Some err\<rparr>
      else if st \<noteq> [] then ctx\<lparr>ctx_state := st\<rparr>
      else ctx)"

definition log_iteration_results ::
  "ml_client_ctx \<Rightarrow> pyval \<Rightarrow> pyval \<Rightarrow> pyval \<Rightarrow> ml_client_ctx" where
  "log_iteration_results ctx best summary task =
     ctx\<lparr>ctx_iterations := Some (best, summary, task)\<rparr>"

definition log_artifact :: "ml_client_ctx \<Rightarrow> string \<Rightarrow> pyval \<Rightarrow> ml_client_ctx" where
  "log_artifact ctx key body = ctx\<lparr>ctx_artifacts := ctx_artifacts ctx @ [(key, body)]\<rparr>"

definition ctx_to_dict :: "ml_client_ctx \<Rightarrow> pyval" where
  "ctx_to_dict ctx =
     PDict ((case get_in (ctx_run ctx) [''metadata''] PNone of
               Inr (PDict md) \<Rightarrow> dict_item ''metadata'' md | _ \<Rightarrow> [])
            @ [(''status'',
                PDict ([(''state'', PStr (ctx_state ctx))]
                       @ (case ctx_error ctx of None \<Rightarrow> [] | Some e \<Rightarrow> [(''error'', PStr e)])
                       @ (case ctx_iterations ctx of None \<Rightarrow> []
                          | Some (best, summary, task) \<Rightarrow>
                              [(''iterations'', summary)])))])"

section \<open>The collaborators of a run\<close>

text \<open>
  What \<^verbatim>\<open>run()\<close> takes from outside \<^verbatim>\<open>base.py\<close>, as parameters:
  \<^item> \<open>env_repr\<close>: the text of a float, list or dict (see \<open>py_str\<close>);
  \<^item> \<open>env_clock n\<close>: the \<open>n\<close>-th reading of \<^verbatim>\<open>str(datetime.now())\<close> during the call;
  \<^item> \<open>env_uuid\<close>: \<^verbatim>\<open>uuid.uuid4().hex\<close>;
  \<^item> \<open>env_connect\<close>: \<^verbatim>\<open>get_run_db(path).connect(secrets)\<close>, the store found at a path;
  \<^item> \<open>env_run\<close>: the runtime kind's \<^verbatim>\<open>_run(task, execution)\<close>, which
    \<^verbatim>\<open>RunRuntime\<close> leaves abstract: for a task it returns a payload or raises, and it may
    have updated the task's status, which is returned with the outcome;
  \<^item> \<open>env_generate\<close>: the task generator of lines 196 to 205
    (\<^verbatim>\<open>GridGenerator\<close>, \<^verbatim>\<open>ListGenerator\<close>, from \<^verbatim>\<open>generators.py\<close>): \<open>None\<close> when the
    run has neither hyper parameters nor a parameter file, otherwise the generated tasks;
  \<^item> \<open>env_table\<close>: the summary table pandas builds from the rows
    (\<^verbatim>\<open>json_normalize(iter).sort_values('iter')\<close>, header row first), or its exception.
\<close>

record env =
  env_repr :: "pyval \<Rightarrow> string"
  env_clock :: "nat \<Rightarrow> string"
  env_uuid :: string
  env_connect :: "string \<Rightarrow> run_db"
  env_run :: "run_object \<Rightarrow> (py_error + pyval) \<times> run_status"
  env_generate :: "run_object \<Rightarrow> run_object list option"
  env_table :: "pyval list \<Rightarrow> py_error + pyval"

section \<open>The batch: \<^verbatim>\<open>_run_many\<close> and \<^verbatim>\<open>_results_to_iter\<close>\<close>

text \<open>
  \<^verbatim>\<open>
  def _run_many(self, tasks, execution, runobj: RunObject) -> RunList:
      results = RunList()
      for task in tasks:
          try:
              self.store_run(task)
              resp = self._run(task, execution)
              resp = self._post_run(resp, task=task)
          except RunError as err:
              task.status.state = 'error'
              task.status.error = err
              resp = self._post_run(task=task, err=err)
          results.append(resp)
      return results
  \<close>
  The loop, with the index \<open>i\<close> of the task and the results so far. \<open>tried\<close> is the outcome
  of the \<^verbatim>\<open>try\<close> block; an exception other than \<^verbatim>\<open>RunError\<close> leaves the loop.
\<close>

fun run_many ::
  "env \<Rightarrow> runtime \<Rightarrow> run_object list \<Rightarrow> nat \<Rightarrow> pyval list \<Rightarrow>
   (py_error + pyval list) \<times> runtime" where
  "run_many E self [] i results = (Inr results, self)"
| "run_many E self (task # tasks) i results =
     (let self1 = store_run (env_repr E) self (Some task);
          ran = env_run E task;
          task1 = task\<lparr>status := snd ran\<rparr>;
          tried = (case fst ran of
                     Inl e \<Rightarrow> (Inl e, self1)
                   | Inr resp \<Rightarrow> post_run (env_repr E) (env_clock E i) self1 resp (Some task1) PNone)
      in case tried of
           (Inl (RunError v), self2) \<Rightarrow>
             (let task2 = task1\<lparr>status := (status task1)\<lparr>state := PStr ''error'', error := PExc v\<rparr>\<rparr>
              in case post_run (env_repr E) (env_clock E i) self2 PNone (Some task2) (PExc v) of
                   (Inl e, self3) \<Rightarrow> (Inl e, self3)
                 | (Inr resp, self3) \<Rightarrow> run_many E self3 tasks (i + 1) (results @ [resp]))
         | (Inl e, self2) \<Rightarrow> (Inl e, self2)
         | (Inr resp, self2) \<Rightarrow> run_many E self2 tasks (i + 1) (results @ [resp]))"

text \<open>
  The loop of \<^verbatim>\<open>_results_to_iter\<close>:
  \<^verbatim>\<open>
  for task in results:
      state = get_in(task, ['status', 'state'])
      id = get_in(task, ['metadata', 'iteration'])
      struct = {'param': get_in(task, ['spec', 'parameters'], {}),
                'output': get_in(task, ['status', 'outputs'], {}),
                'state': state,
                'iter': id,
                }
      if state == 'error':
          failed += 1
          err = get_in(task, ['status', 'error'], '')
          logger.error('error in task  {}:{} - {}'.format(
              runspec.metadata.uid, id, err))

      self._post_run(task)
      iter.append(struct)
  \<close>
  It carries the rows \<open>iter\<close>, the count \<open>failed\<close>, the results as \<^verbatim>\<open>_post_run\<close> leaves
  them (it updates each payload in place) and the lines logged. \<open>t0\<close> is the number of
  clock readings before the call.
\<close>

fun results_to_iter_scan ::
  "env \<Rightarrow> nat \<Rightarrow> run_object \<Rightarrow> runtime \<Rightarrow> pyval list \<Rightarrow> nat \<Rightarrow>
   pyval list \<times> nat \<times> pyval list \<times> string list \<Rightarrow>
   (py_error + pyval list \<times> nat \<times> pyval list \<times> string list) \<times> runtime" where
  "results_to_iter_scan E t0 runspec self [] i acc = (Inr acc, self)"
| "results_to_iter_scan E t0 runspec self (task # rest) i (iter, failed, seen, logged) =
     (case get_in task [''status'', ''state''] PNone of Inl e \<Rightarrow> (Inl e, self) | Inr st \<Rightarrow>
      (case get_in task [''metadata'', ''iteration''] PNone of Inl e \<Rightarrow> (Inl e, self) | Inr ident \<Rightarrow>
      (case get_in task [''spec'', ''parameters''] (PDict []) of Inl e \<Rightarrow> (Inl e, self) | Inr param \<Rightarrow>
      (case get_in task [''status'', ''outputs''] (PDict []) of Inl e \<Rightarrow> (Inl e, self) | Inr output \<Rightarrow>
      (let struct = PDict [(''param'', param), (''output'', output), (''state'', st), (''iter'', ident)]
       in case (if st = PStr ''error''
                then (case get_in task [''status'', ''error''] (PStr '''') of
                        Inl e \<Rightarrow> Inl e
                      | Inr err \<Rightarrow>
                          Inr (failed + 1,
                               logged @ [''error in task  '' @ py_str (env_repr E) (uid (metadata runspec))
                                         @ '':'' @ py_str (env_repr E) ident @ '' - ''
                                         @ py_str (env_repr E) err]))
                else Inr (failed, logged)) of
            Inl e \<Rightarrow> (Inl e, self)
          | Inr (failed, logged) \<Rightarrow>
             (case post_run (env_repr E) (env_clock E (t0 + i)) self task None PNone of
                (Inl e, self1) \<Rightarrow> (Inl e, self1)
              | (Inr task, self1) \<Rightarrow>
                  results_to_iter_scan E t0 runspec self1 rest (i + 1)
                    (iter @ [struct], failed, seen @ [task], logged)))))))"

text \<open>
  \<^verbatim>\<open>
  def _results_to_iter(self, results, runspec, execution):
      if not results:
          logger.error('got an empty results list in to_iter')
          return
      ... (the loop above) ...
      df = pd.io.json.json_normalize(iter).sort_values('iter')
      header = df.columns.values.tolist()
      summary = [header] + df.values.tolist()
      item, id = selector(results, runspec.spec.selector)
      task = results[item] if id and results else None
      execution.log_iteration_results(id, summary, task)
      ... (execution.log_artifact of the table as 'iteration_results.csv') ...
      if failed:
          execution.set_state(error='{} tasks failed, check logs for db for details'.format(failed))
      else:
          execution.set_state('completed')
  \<close>
  The result is the outcome, the runtime object, the execution context and the lines given
  to \<^verbatim>\<open>logger.error\<close>.
\<close>

definition results_to_iter ::
  "env \<Rightarrow> nat \<Rightarrow> runtime \<Rightarrow> pyval list \<Rightarrow> run_object \<Rightarrow> ml_client_ctx \<Rightarrow>
   (py_error + unit) \<times> runtime \<times> ml_client_ctx \<times> string list" where
  "results_to_iter E t0 self results runspec execution =
     (if results = [] then
        (Inr (), self, execution, [''got an empty results list in to_iter''])
      else
        (case results_to_iter_scan E t0 runspec self results 0 ([], 0, [], []) of
           (Inl e, self1) \<Rightarrow> (Inl e, self1, execution, [])
         | (Inr (iter, failed, results, logged), self1) \<Rightarrow>
            (case env_table E iter of
               Inl e \<Rightarrow> (Inl e, self1, execution, logged)
             | Inr summary \<Rightarrow>
                (case selector results (spec_selector (run_object.spec runspec)) of
                   Inl e \<Rightarrow> (Inl e, self1, execution, logged)
                 | Inr (item, ident) \<Rightarrow>
                    (if truthy ident \<and> results \<noteq> [] \<and> \<not> item < length results
                     then (Inl IndexError, self1, execution, logged)
                     else
                       (let task = (if truthy ident \<and> results \<noteq> [] then results ! item else PNone);
                            execution = log_iteration_results execution ident summary task;
                            execution = log_artifact execution ''iteration_results.csv'' summary;
                            execution =
                              (if failed \<noteq> 0
                               then set_state execution ''''
                                      (dec_nat failed @ '' tasks failed, check logs for db for details'')
                               else set_state execution ''completed'' '''')
                        in (Inr (), self1, execution, logged)))))))"

section \<open>\<^verbatim>\<open>RunRuntime.run\<close>\<close>

text \<open>The arguments appended for a parameter dict:
  \<^verbatim>\<open>for k, v in params.items(): self.spec.args += ['--{}'.format(k), str(v)]\<close>.\<close>

definition param_args :: "(pyval \<Rightarrow> string) \<Rightarrow> (string \<times> pyval) list \<Rightarrow> string list" where
  "param_args repr params = concat (map (\<lambda>(k, v). [''--'' @ k, py_str repr v]) params)"

text \<open>
  \<^verbatim>\<open>run(runspec, handler, name, project, params, inputs)\<close>, from the point where
  \<open>runspec\<close> is a \<^verbatim>\<open>RunObject\<close> (lines 149 to 157 build it from a template, dict or
  string). The model keeps the statements that concern the parameters, the uid, the store
  connection, the batch and the single run:
  \<^verbatim>\<open>
  runspec.spec.parameters = params or runspec.spec.parameters
  spec = runspec.spec
  if self.spec.mode in ['noctx', 'args']:
      params = spec.parameters or {}
      for k, v in params.items():
          self.spec.args += ['--{}'.format(k), str(v)]
  meta = runspec.metadata
  meta.uid = meta.uid or uuid.uuid4().hex
  if self.spec.rundb:
      self._db_conn = get_run_db(self.spec.rundb).connect(self._secrets)
  execution = MLClientCtx.from_dict(runspec.to_dict(), self._db_conn, autocommit=True)
  if task_generator:
      generator = task_generator.generate(runspec)
      results = self._run_many(generator, execution, runspec)
      self._results_to_iter(results, runspec, execution)
      resp = execution.to_dict()
      result = show(results, resp)
  else:
      results = RunList()
      try:
          self.store_run(runspec)
          resp = self._run(runspec, execution)
          result = show(results, self._post_run(resp, task=runspec))
      except RunError as err:
          logger.error(f'run error - {err}')
          result = show(results, self._post_run(task=runspec, err=err))
  if result:
      run = RunObject.from_dict(result)
      logger.info('run executed, status={}'.format(runspec.status.state))
      if runspec.status.state == 'error':
          raise RunError(runspec.status.error)
      return run
  return None
  \<close>
  \<^verbatim>\<open>show\<close> returns the payload it is given. Names, inputs, handler, labels, secrets, the
  pipeline metadata file (\<^verbatim>\<open>self.kfp\<close>) and the notebook display are outside the model.
  An empty \<open>params\<close> stands for \<^verbatim>\<open>None\<close> and for \<^verbatim>\<open>{}\<close>. The returned
  \<^verbatim>\<open>RunObject.from_dict(result)\<close> is given by the payload \<open>result\<close> it is built from.
  The model has one definition for each part of the body: \<open>run_finish\<close> is the closing
  \<^verbatim>\<open>if result:\<close> block, \<open>run_batch\<close> the branch of the task generator,
  \<open>run_single\<close> the single run with its \<^verbatim>\<open>try\<close> and \<^verbatim>\<open>except RunError\<close>
  (\<open>tried\<close> and \<open>handled\<close>), and \<open>run\<close> the statements before them.
\<close>

definition run_finish :: "run_object \<Rightarrow> pyval \<Rightarrow> runtime \<Rightarrow> (py_error + pyval) \<times> runtime" where
  "run_finish runspec result self =
     (if truthy result
      then (if state (status runspec) = PStr ''error''
            then (Inl (RunError (error (status runspec))), self)
            else (Inr result, self))
      else (Inr PNone, self))"

definition run_batch ::
  "env \<Rightarrow> runtime \<Rightarrow> run_object \<Rightarrow> ml_client_ctx \<Rightarrow> run_object list \<Rightarrow>
   (py_error + pyval) \<times> runtime" where
  "run_batch E self runspec execution tasks =
     (case run_many E self tasks 0 [] of
        (Inl e, self1) \<Rightarrow> (Inl e, self1)
      | (Inr results, self1) \<Rightarrow>
         (case results_to_iter E (length results) self1 results runspec execution of
            (Inl e, self2, execution, logged) \<Rightarrow> (Inl e, self2)
          | (Inr u, self2, execution, logged) \<Rightarrow>
             (let resp = ctx_to_dict execution; result = resp
              in run_finish runspec result self2)))"

definition run_single ::
  "env \<Rightarrow> runtime \<Rightarrow> run_object \<Rightarrow> (py_error + pyval) \<times> runtime" where
  "run_single E self runspec =
     (let self1 = store_run (env_repr E) self (Some runspec);
          ran = env_run E runspec;
          runspec = runspec\<lparr>status := snd ran\<rparr>;
          tried = (case fst ran of
                     Inl e \<Rightarrow> (Inl e, self1)
                   | Inr resp \<Rightarrow>
                       post_run (env_repr E) (env_clock E 0) self1 resp (Some runspec) PNone);
          handled = (case tried of
                       (Inl (RunError v), self2) \<Rightarrow>
                         post_run (env_repr E) (env_clock E 0) self2 PNone (Some runspec) (PExc v)
                     | other \<Rightarrow> other)
      in case handled of
           (Inl e, self3) \<Rightarrow> (Inl e, self3)
         | (Inr result, self3) \<Rightarrow> run_finish runspec result self3)"

definition run ::
  "env \<Rightarrow> runtime \<Rightarrow> run_object \<Rightarrow> (string \<times> pyval) list \<Rightarrow> (py_error + pyval) \<times> runtime" where
  "run E self runspec params =
     (let runspec = runspec\<lparr>run_object.spec := (run_object.spec runspec)
                       \<lparr>parameters := (if params \<noteq> [] then params
                                        else parameters (run_object.spec runspec))\<rparr>\<rparr>;
          self = (if mode (spec self) \<in> {''noctx'', ''args''}
                  then self\<lparr>spec := (spec self)\<lparr>args := args (spec self)
                           @ param_args (env_repr E) (parameters (run_object.spec runspec))\<rparr>\<rparr>
                  else self);
          runspec = runspec\<lparr>metadata := (metadata runspec)
                       \<lparr>uid := (if truthy (uid (metadata runspec)) then uid (metadata runspec)
                                 else PStr (env_uuid E))\<rparr>\<rparr>;
          self = (if rundb (spec self) \<noteq> []
                  then self\<lparr>db_conn := Some (env_connect E (rundb (spec self)))\<rparr> else self);
          execution = ctx_from_dict (to_dict runspec)
      in case env_generate E runspec of
           Some tasks \<Rightarrow> run_batch E self runspec execution tasks
         | None \<Rightarrow> run_single E self runspec)"

section \<open>The build gate: \<^verbatim>\<open>_build_image\<close>\<close>

text \<open>
  \<^verbatim>\<open>
  def _build_image(self, watch=False, with_mlrun=True, execution=None):
      pod = self.build.build_pod
      if not self._is_built and pod:
          k8s = self._get_k8s()
          status = k8s.get_pod_status(pod)
          if status == 'succeeded':
              self.build.build_pod = None
              self._is_built = True
              return True
          if status in ['failed', 'error']:
              raise RunError(' build {}, watch the build pod logs: {}'.format(status, pod))
          return False

      if not self.build.commands and self.spec.mode == 'pass' and not self.build.source:
          if not self.spec.image and not self.build.base_image:
              raise RunError('image or base_image must be specified')
          self.spec.image = self.spec.image or self.build.base_image
      if self.spec.image:
          self._is_built = True
          return True

      if execution:
          execution.set_state('build')
      ready = build_runtime(self, with_mlrun, watch)
      self._is_built = ready
  \<close>
  The method is named \<open>priv_build_image\<close>, since \<^verbatim>\<open>build_image\<close> is another method of the
  class. \<open>get_pod_status\<close> is the answer of \<^verbatim>\<open>k8s_helper().get_pod_status\<close> and
  \<open>build_runtime\<close> is \<^verbatim>\<open>mlrun.builder.build_runtime\<close> with its two flags, the external
  builder: it returns whether the image is ready or raises, and may update the runtime
  object. The method returns \<open>True\<close>, \<open>False\<close> or, after the builder, \<open>None\<close>.
\<close>

definition priv_build_image ::
  "(string \<Rightarrow> string) \<Rightarrow> (runtime \<Rightarrow> (py_error + bool) \<times> runtime) \<Rightarrow> runtime \<Rightarrow>
   ml_client_ctx option \<Rightarrow> (py_error + pyval) \<times> runtime \<times> ml_client_ctx option" where
  "priv_build_image get_pod_status build_runtime self execution =
     (case (case build_pod (build self) of
              Some pod \<Rightarrow> (if \<not> is_built self \<and> pod \<noteq> [] then Some pod else None)
            | None \<Rightarrow> None) of
        Some pod \<Rightarrow>
          (let status = get_pod_status pod in
           if status = ''succeeded'' then
             (Inr (PBool True),
              self\<lparr>build := (build self)\<lparr>build_pod := None\<rparr>, is_built := True\<rparr>, execution)
           else if status \<in> {''failed'', ''error''} then
             (Inl (RunError (PStr ('' build '' @ status @ '', watch the build pod logs: '' @ pod))),
              self, execution)
           else (Inr (PBool False), self, execution))
      | None \<Rightarrow>
          (case (if commands (build self) = [] \<and> mode (spec self) = ''pass''
                    \<and> (source (build self) = None \<or> source (build self) = Some [])
                 then (if image (spec self) = []
                          \<and> (base_image (build self) = None \<or> base_image (build self) = Some [])
                       then Inl (RunError (PStr ''image or base_image must be specified''))
                       else Inr (self\<lparr>spec := (spec self)\<lparr>image :=
                                   (if image (spec self) \<noteq> [] then image (spec self)
                                    else (case base_image (build self) of
                                            Some b \<Rightarrow> b | None \<Rightarrow> []))\<rparr>\<rparr>))
                 else Inr self) of
             Inl e \<Rightarrow> (Inl e, self, execution)
           | Inr self \<Rightarrow>
               (if image (spec self) \<noteq> [] then
                  (Inr (PBool True), self\<lparr>is_built := True\<rparr>, execution)
                else
                  (let execution = map_option (\<lambda>ctx. set_state ctx ''build'' '''') execution
                   in case build_runtime self of
                        (Inl e, self1) \<Rightarrow> (Inl e, self1, execution)
                      | (Inr ready, self1) \<Rightarrow>
                          (Inr PNone, self1\<lparr>is_built := ready\<rparr>, execution)))))"

fun build_session ::
  "((string \<Rightarrow> string) \<times> (runtime \<Rightarrow> (py_error + bool) \<times> runtime)) list \<Rightarrow> runtime \<Rightarrow> runtime" where
  "build_session [] self = self"
| "build_session ((get_pod_status, build_runtime) # calls) self =
     build_session calls (fst (snd (priv_build_image get_pod_status build_runtime self None)))"

section \<open>Shapes, keys and examples used in the statements\<close>

text \<open>The payload is a dict whose entry \<open>k\<close>, when present, is a dict.\<close>

definition dict_under :: "string \<Rightarrow> pyval \<Rightarrow> bool" where
  "dict_under k resp =
     (case resp of
        PDict d \<Rightarrow> (case map_of d k of None \<Rightarrow> True | Some (PDict ds) \<Rightarrow> True | Some _ \<Rightarrow> False)
      | _ \<Rightarrow> False)"

text \<open>An iteration as the spec types it: absent or an integer.\<close>

fun is_iteration :: "pyval \<Rightarrow> bool" where
  "is_iteration PNone = True"
| "is_iteration (PInt i) = True"
| "is_iteration v = False"

text \<open>
  The key convention in the spec's words: \<open>(uid, project)\<close> when the iteration is 0 or
  absent, and uid, hyphen, iteration for a sweep member.
\<close>

definition run_key :: "(pyval \<Rightarrow> string) \<Rightarrow> pyval \<Rightarrow> pyval \<Rightarrow> pyval" where
  "run_key repr u it =
     (case it of
        PInt i \<Rightarrow> (if i = 0 then u else PStr (py_str repr u @ ''-'' @ dec_int i))
      | _ \<Rightarrow> u)"

text \<open>An optional string that is \<^verbatim>\<open>None\<close> or empty.\<close>

definition unset :: "string option \<Rightarrow> bool" where
  "unset s = (s = None \<or> s = Some [])"

section \<open>Examples used by the witnesses\<close>

text \<open>A task payload as the batch produces it, a task object and a runtime object.\<close>

definition task_payload :: "int \<Rightarrow> string \<Rightarrow> (string \<times> pyval) list \<Rightarrow> pyval" where
  "task_payload it st outs =
     PDict [(''metadata'', PDict [(''uid'', PStr ''u1''), (''project'', PStr ''p''),
                                  (''iteration'', PInt it)]),
            (''status'', PDict [(''state'', PStr st), (''outputs'', PDict outs)])]"

definition no_repr :: "pyval \<Rightarrow> string" where
  "no_repr v = ''?''"

definition task_object :: "int \<Rightarrow> run_object" where
  "task_object it =
     \<lparr>metadata = \<lparr>uid = PStr ''u1'', project = PStr ''p'', iteration = PInt it\<rparr>,
      spec = \<lparr>parameters = [], spec_selector = None\<rparr>,
      status = \<lparr>state = PNone, error = PNone, outputs = []\<rparr>\<rparr>"

definition base_runtime :: "run_db option \<Rightarrow> runtime" where
  "base_runtime conn =
     \<lparr>kind = ''base'',
      spec = \<lparr>command = '''', args = [], image = '''', mode = '''', rundb = ''''\<rparr>,
      build = \<lparr>source = None, base_image = None, commands = [], build_pod = None\<rparr>,
      is_built = False, db_conn = conn\<rparr>"

definition pass_runtime :: "string \<Rightarrow> string option \<Rightarrow> string option \<Rightarrow> bool \<Rightarrow> runtime" where
  "pass_runtime img base pod built =
     \<lparr>kind = ''job'',
      spec = \<lparr>command = ''main.py'', args = [], image = img, mode = ''pass'', rundb = ''''\<rparr>,
      build = \<lparr>source = None, base_image = base, commands = [], build_pod = pod\<rparr>,
      is_built = built, db_conn = None\<rparr>"

definition cmd_runtime :: "string option \<Rightarrow> bool \<Rightarrow> runtime" where
  "cmd_runtime pod built =
     \<lparr>kind = ''job'',
      spec = \<lparr>command = ''main.py'', args = [], image = '''', mode = '''', rundb = ''''\<rparr>,
      build = \<lparr>source = None, base_image = Some ''python:3.6'', commands = [''pip install pandas''],
               build_pod = pod\<rparr>,
      is_built = built, db_conn = None\<rparr>"

definition dispatching_builder :: "runtime \<Rightarrow> (py_error + bool) \<times> runtime" where
  "dispatching_builder self = (Inr False, self\<lparr>build := (build self)\<lparr>build_pod := Some ''build-pod-1''\<rparr>\<rparr>)"

text \<open>Collaborators for the examples: a backend that raises \<^verbatim>\<open>RunError('boom')\<close>, one that
  returns the task's own payload, and a runtime in mode \<open>args\<close>.\<close>

definition example_env :: "(run_object \<Rightarrow> (py_error + pyval) \<times> run_status) \<Rightarrow> run_object list option \<Rightarrow> env" where
  "example_env backend tasks =
     \<lparr>env_repr = no_repr, env_clock = (\<lambda>n. ''2019-11-01 10:00:0'' @ dec_nat n),
      env_uuid = ''0a1b2c'', env_connect = (\<lambda>path. Map.empty),
      env_run = backend, env_generate = (\<lambda>runspec. tasks),
      env_table = (\<lambda>rows. Inr (PList rows))\<rparr>"

definition failing_backend :: "run_object \<Rightarrow> (py_error + pyval) \<times> run_status" where
  "failing_backend task = (Inl (RunError (PStr ''boom'')), status task)"




section \<open>Properties of the selector\<close>

text \<open>A task the scan passes over: its lookups succeed and it is in state \<open>error\<close> or has
  no value for the field.\<close>

definition skipped :: "string \<Rightarrow> pyval \<Rightarrow> bool" where
  "skipped field task =
     (case get_in task [''status'', ''state''] PNone of Inl e \<Rightarrow> False | Inr st \<Rightarrow>
      (case get_in task [''metadata'', ''iteration''] PNone of Inl e \<Rightarrow> False | Inr ident \<Rightarrow>
      (case get_in task [''status'', ''outputs'', field] PNone of Inl e \<Rightarrow> False | Inr val \<Rightarrow>
         st = PStr ''error'' \<or> val = PNone)))"

lemma float_info_min_pos: "0 < float_info_min"
  by (simp add: float_info_min_def)

text \<open>The spec's example: accuracies 0.7, 0.9, 0.9 and a failed task, iterations 1 to 4,
  elect iteration 2 (index 1).\<close>

lemma selector_example_spec:
  "selector [task_payload 1 ''completed'' [(''accuracy'', PFloat 0.7)],
             task_payload 2 ''completed'' [(''accuracy'', PFloat 0.9)],
             task_payload 3 ''completed'' [(''accuracy'', PFloat 0.9)],
             task_payload 4 ''error'' []] (Some ''max.accuracy'') = Inr (1, PInt 2)"
  by (simp add: selector_def criteria_op_def criteria_field_def task_payload_def float_info_min_def)

lemma selector_scan_skipped:
  "list_all (skipped field) results \<Longrightarrow> selector_scan opr field results i best = Inr best"
proof (induction results arbitrary: i)
  case Nil
  then show ?case by simp
next
  case (Cons task rest)
  obtain a b c where best: "best = (a, b, c)" by (cases best)
  from Cons.prems have s: "skipped field task" and r: "list_all (skipped field) rest" by simp_all
  from s show ?case unfolding best
    by (auto simp: skipped_def Cons.IH[OF r, unfolded best] split: sum.splits)
qed

text \<open>
  C1 (the code departs from the claim). With the criterion \<open>max.score\<close> and the scores
  -0.5 and -0.3 of two completed tasks (iterations 1 and 2), the claim elects iteration 2,
  the earliest task with the largest score. The scan starts from
  \<^verbatim>\<open>best_val = sys.float_info.min\<close>, the smallest positive float, so no score that is
  zero or negative ever improves on it: the selector returns \<open>(0, 0)\<close>, no winner.
\<close>

theorem selector_max_misses_nonpositive_values:
  "selector [task_payload 1 ''completed'' [(''score'', PFloat (- 0.5))],
             task_payload 2 ''completed'' [(''score'', PFloat (- 0.3))]] (Some ''max.score'')
   = Inr (0, PInt 0)"
  by (simp add: selector_def criteria_op_def criteria_field_def task_payload_def float_info_min_def)

text \<open>
  C4 (as stated, refuted). The claim wants the outcome of a criterion that skips every task
  to differ from the outcome of no criterion. On a batch whose only task failed, the selector
  returns the same pair for \<open>max.accuracy\<close> and for no criterion.
\<close>

theorem selector_no_winner_counterexample:
  "selector [task_payload 1 ''error'' []] (Some ''max.accuracy'')
   = selector [task_payload 1 ''error'' []] None"
  by (simp add: selector_def criteria_op_def criteria_field_def task_payload_def)

text \<open>
  C4 (amended). When a criterion is supplied and every task is skipped (each is in state
  \<open>error\<close> or has no value for the field), the selector returns \<open>(0, 0)\<close>, the very pair it
  returns when no criterion is supplied: the two outcomes are not told apart.
\<close>

theorem selector_all_skipped_is_no_selection:
  "list_all (skipped (criteria_field c)) results \<Longrightarrow>
   selector results (Some c) = Inr (0, PInt 0) \<and> selector results None = Inr (0, PInt 0)"
  by (simp add: selector_def selector_scan_skipped)

text \<open>Witness for C4 (amended): a failed task and a completed task without the field.\<close>

theorem selector_all_skipped_witness:
  "list_all (skipped (criteria_field ''min.loss''))
     [task_payload 1 ''error'' [(''loss'', PFloat 0.5)], task_payload 2 ''completed'' []] \<and>
   selector [task_payload 1 ''error'' [(''loss'', PFloat 0.5)], task_payload 2 ''completed'' []]
     (Some ''min.loss'') = Inr (0, PInt 0)"
proof -
  have h: "list_all (skipped (criteria_field ''min.loss''))
     [task_payload 1 ''error'' [(''loss'', PFloat 0.5)], task_payload 2 ''completed'' []]"
    by (simp add: skipped_def criteria_field_def task_payload_def)
  from selector_all_skipped_is_no_selection[OF h] h show ?thesis by simp
qed

section \<open>Properties of the state normalization\<close>

text \<open>\<open>at2 r a b v\<close>: the payload \<open>r\<close> is a dict holding a dict under \<open>a\<close> that holds \<open>v\<close>
  under \<open>b\<close>.\<close>

definition at2 :: "pyval \<Rightarrow> string \<Rightarrow> string \<Rightarrow> pyval \<Rightarrow> bool" where
  "at2 r a b v = (\<exists>d ds. r = PDict d \<and> map_of d a = Some (PDict ds) \<and> map_of ds b = Some v)"

lemma update_in2_Inr:
  assumes "update_in obj [a, b] v = Inr r"
  shows "\<exists>d ds. obj = PDict d \<and> (case map_of d a of None \<Rightarrow> PDict [] | Some s \<Rightarrow> s) = PDict ds
            \<and> r = PDict (AList.update a (PDict (AList.update b v ds)) d)"
proof (cases obj)
  case (PDict d)
  show ?thesis
  proof (cases "case map_of d a of None \<Rightarrow> PDict [] | Some s \<Rightarrow> s")
    case (PDict ds)
    with assms \<open>obj = PDict d\<close> show ?thesis by auto
  qed (use assms \<open>obj = PDict d\<close> in auto)
qed (use assms in auto)

lemma update_in2_at2: "update_in obj [a, b] v = Inr r \<Longrightarrow> at2 r a b v"
  by (drule update_in2_Inr) (auto simp: at2_def update_conv')

lemma at2_update_same: "at2 r a b v \<Longrightarrow> update_in r [a, b] v = Inr r"
  by (auto simp: at2_def update_triv)

lemma at2_get_in: "at2 r a b v \<Longrightarrow> get_in r [a, b] dflt = Inr v"
  by (auto simp: at2_def)

lemma at2_update_other:
  "at2 r a b v \<Longrightarrow> b \<noteq> c \<Longrightarrow> update_in r [a, c] w = Inr r' \<Longrightarrow> at2 r' a b v"
  by (drule update_in2_Inr) (auto simp: at2_def update_conv')

lemma split_dot_state [simp]: "split_dot ''status.state'' = [''status'', ''state'']"
  by simp
lemma split_dot_error [simp]: "split_dot ''status.error'' = [''status'', ''error'']"
  by simp

lemma post_run_state_idem:
  assumes "post_run_state now resp err = Inr (r, ups)"
  shows "\<exists>ups'. post_run_state now' r err = Inr (r, ups')"
    and "\<exists>ups'. post_run_state now' r PNone = Inr (r, ups')"
proof -
  obtain st where st: "get_in resp [''status'', ''state''] (PStr '''') = Inr st"
    using assms by (auto simp: post_run_state_def Let_def simp del: get_in.simps update_in.simps split: sum.splits)
  show "\<exists>ups'. post_run_state now' r err = Inr (r, ups')"
    and "\<exists>ups'. post_run_state now' r PNone = Inr (r, ups')"
  proof (atomize (full), cases "st \<noteq> PStr ''error'' \<and> \<not> truthy err")
    case True
    with assms st have "update_in resp [''status'', ''state''] (PStr ''completed'') = Inr r"
      by (auto simp: post_run_state_def Let_def simp del: get_in.simps update_in.simps split: sum.splits)
    then have a: "at2 r ''status'' ''state'' (PStr ''completed'')" by (rule update_in2_at2)
    from True a show "(\<exists>ups'. post_run_state now' r err = Inr (r, ups')) \<and>
        (\<exists>ups'. post_run_state now' r PNone = Inr (r, ups'))"
      by (simp add: post_run_state_def at2_get_in at2_update_same del: get_in.simps update_in.simps)
  next
    case False
    with assms st obtain r1 where r1: "update_in resp [''status'', ''state''] (PStr ''error'') = Inr r1"
      and r2: "(if truthy err then update_in r1 [''status'', ''error''] err else Inr r1) = Inr r"
      by (auto simp: post_run_state_def Let_def simp del: get_in.simps update_in.simps split: sum.splits if_splits)
    from r1 have a1: "at2 r1 ''status'' ''state'' (PStr ''error'')" by (rule update_in2_at2)
    have a: "at2 r ''status'' ''state'' (PStr ''error'')"
    proof (cases "truthy err")
      case True
      with r2 have "update_in r1 [''status'', ''error''] err = Inr r" by simp
      from at2_update_other[OF a1 _ this] show ?thesis by simp
    next
      case False
      with r2 a1 show ?thesis by simp
    qed
    have e: "truthy err \<Longrightarrow> at2 r ''status'' ''error'' err"
      using r2 by (auto simp del: get_in.simps update_in.simps intro: update_in2_at2)
    obtain d ds where d: "r = PDict d" "map_of d ''status'' = Some (PDict ds)"
      using a by (auto simp: at2_def)
    have g: "\<exists>v. get_in r [''status'', ''error''] PNone = Inr v"
      using d by (auto split: option.splits)
    from a e g show "(\<exists>ups'. post_run_state now' r err = Inr (r, ups')) \<and>
        (\<exists>ups'. post_run_state now' r PNone = Inr (r, ups'))"
      by (auto simp: post_run_state_def Let_def at2_get_in at2_update_same simp del: get_in.simps update_in.simps)
  qed
qed

lemma post_run_Inr_cases:
  assumes "post_run repr now self resp task err = (Inr r, self')"
  shows "r = PNone \<or> (\<exists>resp0 d ups. resp0 = PDict d \<and> post_run_state now resp0 err = Inr (r, ups) \<and>
      (case db_conn self of None \<Rightarrow> self' = self
       | Some db \<Rightarrow> db_conn self' \<noteq> None \<and>
           (\<exists>a b c. get_in r (split_dot ''metadata.project'') PNone = Inr a
              \<and> get_in r (split_dot ''metadata.uid'') PNone = Inr b
              \<and> get_in r (split_dot ''metadata.iteration'') (PInt 0) = Inr c)))"
  using assms
  by (auto simp: post_run_def Let_def simp del: get_in.simps update_in.simps split_dot.simps
      split: if_splits pyval.splits sum.splits option.splits prod.splits)

lemma post_run_state_dict:
  "post_run_state now resp err = Inr (r, ups) \<Longrightarrow> \<exists>d. r = PDict d"
  by (auto simp: post_run_state_def Let_def at2_def simp del: get_in.simps update_in.simps
      split: sum.splits if_splits dest!: update_in2_at2)

text \<open>
  C2. Whenever \<^verbatim>\<open>_post_run\<close> returns a payload \<open>r\<close> (for any payload, task and error
  given to it), applying it again to \<open>r\<close> on the same runtime object returns \<open>r\<close>
  unchanged, with the same error as well as with none.
\<close>

theorem post_run_idempotent:
  assumes "post_run repr now self resp task err = (Inr r, self')"
  shows "fst (post_run repr now' self' r None err) = Inr r \<and>
         fst (post_run repr now' self' r None PNone) = Inr r"
proof (cases "r = PNone")
  case True
  then show ?thesis by (simp add: post_run_def)
next
  case False
  with post_run_Inr_cases[OF assms] obtain resp0 d ups where
    st: "post_run_state now resp0 err = Inr (r, ups)" and
    db: "(case db_conn self of None \<Rightarrow> self' = self
       | Some db \<Rightarrow> db_conn self' \<noteq> None \<and>
           (\<exists>a b c. get_in r (split_dot ''metadata.project'') PNone = Inr a
              \<and> get_in r (split_dot ''metadata.uid'') PNone = Inr b
              \<and> get_in r (split_dot ''metadata.iteration'') (PInt 0) = Inr c))"
    by blast
  from post_run_state_dict[OF st] obtain d' where d': "r = PDict d'" by blast
  from post_run_state_idem[OF st, of now'] obtain u1 u2 where
    i1: "post_run_state now' r err = Inr (r, u1)" and i2: "post_run_state now' r PNone = Inr (r, u2)"
    by blast
  show ?thesis
  proof (cases "db_conn self")
    case None
    with db have "db_conn self' = None" by simp
    with i1 i2 d' show ?thesis by (simp add: post_run_def del: get_in.simps update_in.simps)
  next
    case (Some a)
    with db obtain db' a b c where "db_conn self' = Some db'"
      "get_in r (split_dot ''metadata.project'') PNone = Inr a"
      "get_in r (split_dot ''metadata.uid'') PNone = Inr b"
      "get_in r (split_dot ''metadata.iteration'') (PInt 0) = Inr c" by auto
    with i1 i2 d' show ?thesis
      by (simp add: post_run_def Let_def del: get_in.simps update_in.simps split_dot.simps)
  qed
qed

text \<open>Witness for C2: a payload reporting a running task, normalized with a raised error.\<close>

theorem post_run_idempotent_witness:
  "post_run no_repr ''t0'' (base_runtime None)
     (PDict [(''status'', PDict [(''state'', PStr ''running'')])]) None (PExc (PStr ''boom''))
   = (Inr (PDict [(''status'', PDict [(''state'', PStr ''error''),
                                     (''error'', PExc (PStr ''boom''))])]), base_runtime None) \<and>
   fst (post_run no_repr ''t1'' (base_runtime None)
     (PDict [(''status'', PDict [(''state'', PStr ''error''), (''error'', PExc (PStr ''boom''))])])
     None PNone)
   = Inr (PDict [(''status'', PDict [(''state'', PStr ''error''),
                                    (''error'', PExc (PStr ''boom''))])])"
proof -
  have h: "post_run no_repr ''t0'' (base_runtime None)
     (PDict [(''status'', PDict [(''state'', PStr ''running'')])]) None (PExc (PStr ''boom''))
   = (Inr (PDict [(''status'', PDict [(''state'', PStr ''error''),
                                     (''error'', PExc (PStr ''boom''))])]), base_runtime None)"
    by (simp add: post_run_def post_run_state_def base_runtime_def)
  from post_run_idempotent[OF h, of "''t1''"] h show ?thesis by simp
qed

section \<open>Payload shapes\<close>

lemma dict_underE:
  assumes "dict_under k resp"
  obtains d where "resp = PDict d" "map_of d k = None"
  | d ds where "resp = PDict d" "map_of d k = Some (PDict ds)"
proof (cases resp)
  case (PDict d)
  show ?thesis
  proof (cases "map_of d k")
    case None
    with PDict that(1) show ?thesis by simp
  next
    case (Some x)
    with PDict assms obtain ds where "x = PDict ds"
      by (cases x) (simp_all add: dict_under_def)
    with PDict Some that(2) show ?thesis by simp
  qed
qed (use assms in \<open>simp_all add: dict_under_def\<close>)

lemma dict_under_get_in2:
  "dict_under a resp \<Longrightarrow> \<exists>v. get_in resp [a, b] dflt = Inr v"
  by (erule dict_underE) (auto split: option.splits)

lemma dict_under_update_in2:
  "dict_under a resp \<Longrightarrow> \<exists>r. update_in resp [a, b] v = Inr r"
  by (erule dict_underE) auto

lemma update_in2_dict_under:
  "update_in obj [a, b] v = Inr r \<Longrightarrow> dict_under a r"
  by (drule update_in2_Inr) (auto simp: dict_under_def update_conv')

lemma update_in2_other_key:
  assumes "update_in obj [a, b] v = Inr r" and "a \<noteq> c"
  shows "get_in r (c # ks) dflt = get_in obj (c # ks) dflt"
proof -
  from update_in2_Inr[OF assms(1)] obtain d ds where
    o: "obj = PDict d" and r: "r = PDict (AList.update a (PDict (AList.update b v ds)) d)"
    by blast
  show ?thesis
  proof (cases "d = []")
    case True
    with o r assms(2) show ?thesis by simp
  next
    case False
    with o r assms(2) show ?thesis by (simp add: update_conv')
  qed
qed

lemma update_in2_other_dict_under:
  assumes "update_in obj [a, b] v = Inr r" and "a \<noteq> c"
  shows "dict_under c r = dict_under c obj"
proof -
  from update_in2_Inr[OF assms(1)] obtain d ds where
    o: "obj = PDict d" and r: "r = PDict (AList.update a (PDict (AList.update b v ds)) d)"
    by blast
  with assms(2) show ?thesis by (simp add: dict_under_def update_conv')
qed

lemma post_run_state_total:
  assumes "dict_under ''status'' resp"
  shows "\<exists>r ups. post_run_state now resp err = Inr (r, ups)"
proof -
  from dict_under_get_in2[OF assms] obtain st where
    st: "get_in resp [''status'', ''state''] (PStr '''') = Inr st" by blast
  show ?thesis
  proof (cases "st \<noteq> PStr ''error'' \<and> \<not> truthy err")
    case True
    from dict_under_update_in2[OF assms] obtain r where
      "update_in resp [''status'', ''state''] (PStr ''completed'') = Inr r" by blast
    with st True show ?thesis
      by (simp add: post_run_state_def Let_def del: get_in.simps update_in.simps)
  next
    case False
    from dict_under_update_in2[OF assms] obtain r1 where
      r1: "update_in resp [''status'', ''state''] (PStr ''error'') = Inr r1" by blast
    have d1: "dict_under ''status'' r1" using r1 by (rule update_in2_dict_under)
    obtain r2 where r2: "(if truthy err then update_in r1 [''status'', ''error''] err else Inr r1) = Inr r2"
      using dict_under_update_in2[OF d1, of "''error''" err] by (cases "truthy err") auto
    have d2: "dict_under ''status'' r2"
      using r2 d1 by (auto split: if_splits simp del: update_in.simps intro: update_in2_dict_under)
    from dict_under_get_in2[OF d2] obtain e where
      e: "get_in r2 [''status'', ''error''] PNone = Inr e" by blast
    from st False r1 r2 e show ?thesis
      by (cases "truthy err")
        (simp_all add: post_run_state_def Let_def del: get_in.simps update_in.simps)
  qed
qed

lemma post_run_state_metadata:
  assumes "post_run_state now resp err = Inr (r, ups)"
  shows "get_in r (''metadata'' # ks) dflt = get_in resp (''metadata'' # ks) dflt"
    and "dict_under ''metadata'' r = dict_under ''metadata'' resp"
    and "dict_under ''status'' r"
proof -
  obtain st where st: "get_in resp [''status'', ''state''] (PStr '''') = Inr st"
    using assms by (auto simp: post_run_state_def Let_def simp del: get_in.simps update_in.simps split: sum.splits)
  have "get_in r (''metadata'' # ks) dflt = get_in resp (''metadata'' # ks) dflt \<and>
     dict_under ''metadata'' r = dict_under ''metadata'' resp \<and> dict_under ''status'' r"
  proof (cases "st \<noteq> PStr ''error'' \<and> \<not> truthy err")
    case True
    with assms st have u: "update_in resp [''status'', ''state''] (PStr ''completed'') = Inr r"
      by (auto simp: post_run_state_def Let_def simp del: get_in.simps update_in.simps split: sum.splits)
    from update_in2_other_key[OF u, of "''metadata''"] update_in2_other_dict_under[OF u, of "''metadata''"]
      update_in2_dict_under[OF u]
    show ?thesis by simp
  next
    case False
    with assms st obtain r1 where r1: "update_in resp [''status'', ''state''] (PStr ''error'') = Inr r1"
      and r2: "(if truthy err then update_in r1 [''status'', ''error''] err else Inr r1) = Inr r"
      by (auto simp: post_run_state_def Let_def simp del: get_in.simps update_in.simps split: sum.splits if_splits)
    note a = update_in2_other_key[OF r1, of "''metadata''" ks dflt]
      update_in2_other_dict_under[OF r1, of "''metadata''"] update_in2_dict_under[OF r1]
    show ?thesis
    proof (cases "truthy err")
      case True
      with r2 have u: "update_in r1 [''status'', ''error''] err = Inr r" by simp
      from update_in2_other_key[OF u, of "''metadata''" ks dflt]
        update_in2_other_dict_under[OF u, of "''metadata''"] update_in2_dict_under[OF u] a
      show ?thesis by simp
    next
      case False
      with r2 a show ?thesis by simp
    qed
  qed
  then show "get_in r (''metadata'' # ks) dflt = get_in resp (''metadata'' # ks) dflt"
    and "dict_under ''metadata'' r = dict_under ''metadata'' resp"
    and "dict_under ''status'' r" by simp_all
qed

lemma to_dict_dict_under: "dict_under k (to_dict t)"
  by (auto simp: dict_under_def to_dict_def dict_item_def opt_item_def split: option.splits pyval.splits)

lemma to_dict_metadata:
  "get_in (to_dict t) [''metadata'', ''uid''] PNone = Inr (uid (metadata t))"
  "get_in (to_dict t) [''metadata'', ''project''] PNone = Inr (project (metadata t))"
  "is_iteration (iteration (metadata t)) \<Longrightarrow> \<exists>it. get_in (to_dict t) [''metadata'', ''iteration''] (PInt 0) = Inr it
     \<and> run_key repr u it = run_key repr u (iteration (metadata t)) \<and> truthy it = truthy (iteration (metadata t))"
  by (auto simp: to_dict_def dict_item_def opt_item_def run_key_def split: pyval.splits)

section \<open>Properties of the store keys\<close>

lemma split_dot_metadata [simp]:
  "split_dot ''metadata.project'' = [''metadata'', ''project'']"
  "split_dot ''metadata.uid'' = [''metadata'', ''uid'']"
  "split_dot ''metadata.iteration'' = [''metadata'', ''iteration'']"
  by simp_all

lemma code_key_run_key:
  "is_iteration it \<Longrightarrow>
   (if truthy it then PStr (py_str repr u @ ''-'' @ py_str repr it) else u) = run_key repr u it"
  by (cases it) (auto simp: run_key_def)

lemma to_dict_PDict: "\<exists>d. to_dict t = PDict d"
  by (simp add: to_dict_def)

lemma post_run_state_updates:
  assumes "post_run_state now resp err = Inr (r, ups)"
  shows "map_of ups ''status.last_update'' = Some (PStr now) \<and>
         (\<exists>st. map_of ups ''status.state'' = Some st \<and>
               get_in r [''status'', ''state''] PNone = Inr st \<and>
               (st = PStr ''completed'' \<or> st = PStr ''error''))"
proof -
  obtain st where st: "get_in resp [''status'', ''state''] (PStr '''') = Inr st"
    using assms by (auto simp: post_run_state_def Let_def simp del: get_in.simps update_in.simps split: sum.splits)
  show ?thesis
  proof (cases "st \<noteq> PStr ''error'' \<and> \<not> truthy err")
    case True
    with assms st have u: "update_in resp [''status'', ''state''] (PStr ''completed'') = Inr r"
      and ups: "ups = AList.update ''status.state'' (PStr ''completed'') [(''status.last_update'', PStr now)]"
      by (auto simp: post_run_state_def Let_def simp del: get_in.simps update_in.simps split: sum.splits)
    from at2_get_in[OF update_in2_at2[OF u]] ups show ?thesis by simp
  next
    case False
    with assms st obtain r1 where r1: "update_in resp [''status'', ''state''] (PStr ''error'') = Inr r1"
      and r2: "(if truthy err then update_in r1 [''status'', ''error''] err else Inr r1) = Inr r"
      and ups: "map_of ups ''status.state'' = Some (PStr ''error'')"
               "map_of ups ''status.last_update'' = Some (PStr now)"
      by (auto simp: post_run_state_def Let_def simp del: get_in.simps update_in.simps split: sum.splits if_splits)
    from r1 have a1: "at2 r1 ''status'' ''state'' (PStr ''error'')" by (rule update_in2_at2)
    have a: "at2 r ''status'' ''state'' (PStr ''error'')"
    proof (cases "truthy err")
      case True
      with r2 have "update_in r1 [''status'', ''error''] err = Inr r" by simp
      from at2_update_other[OF a1 _ this] show ?thesis by simp
    next
      case False
      with r2 a1 show ?thesis by simp
    qed
    from at2_get_in[OF a] ups show ?thesis by simp
  qed
qed

lemma post_run_with_store:
  assumes "db_conn self = Some db"
    and "post_run repr now self resp task err = (Inr r, self')" and "r \<noteq> PNone"
  shows "\<exists>ups p u it.
           post_run_state now (if resp = PNone \<and> task \<noteq> None then get_db_run repr self task else resp) err
             = Inr (r, ups) \<and>
           get_in r [''metadata'', ''project''] PNone = Inr p \<and>
           get_in r [''metadata'', ''uid''] PNone = Inr u \<and>
           get_in r [''metadata'', ''iteration''] (PInt 0) = Inr it \<and>
           self' = self\<lparr>db_conn := Some (db_update_run db ups
                     (if truthy it then PStr (py_str repr u @ ''-'' @ py_str repr it) else u) p)\<rparr>"
  using assms
  by (auto simp: post_run_def Let_def simp del: get_in.simps update_in.simps
      split: if_splits pyval.splits sum.splits option.splits prod.splits)


text \<open>
  C9. With a connected store and a task whose iteration is absent or an integer,
  \<^verbatim>\<open>store_run\<close> stores and \<^verbatim>\<open>_get_db_run\<close> reads under the spec's key: \<open>(uid, project)\<close>
  when the iteration is 0 or absent, and uid, hyphen, iteration with the project otherwise.
  \<^verbatim>\<open>_post_run\<close> on the task's payload sends its \<open>updates\<close> (the ones the normalization
  built, with the terminal state among them) to \<^verbatim>\<open>update_run\<close> under that same key. On any
  payload it returns, \<^verbatim>\<open>_post_run\<close> takes uid, project and iteration from the payload's
  metadata and keys the update by the same convention.
\<close>

theorem run_key_consistent:
  assumes "db_conn self = Some db" and "is_iteration (iteration (metadata t))"
  shows "db_conn (store_run repr self (Some t)) =
           Some (db_store_run db (to_dict t)
                   (run_key repr (uid (metadata t)) (iteration (metadata t))) (project (metadata t))) \<and>
         get_db_run repr self (Some t) =
           db_read_run db (run_key repr (uid (metadata t)) (iteration (metadata t)))
             (project (metadata t)) \<and>
         (\<exists>r ups. post_run_state now (to_dict t) err = Inr (r, ups) \<and>
            map_of ups ''status.state'' \<noteq> None \<and>
            post_run repr now self (to_dict t) task err =
              (Inr r, self\<lparr>db_conn := Some (db_update_run db ups
                   (run_key repr (uid (metadata t)) (iteration (metadata t)))
                   (project (metadata t)))\<rparr>)) \<and>
         (\<forall>resp r self'. post_run repr now self resp task err = (Inr r, self') \<longrightarrow> r \<noteq> PNone \<longrightarrow>
            (\<exists>ups p u it.
               post_run_state now
                 (if resp = PNone \<and> task \<noteq> None then get_db_run repr self task else resp) err
                 = Inr (r, ups) \<and>
               map_of ups ''status.state'' \<noteq> None \<and>
               get_in r [''metadata'', ''project''] PNone = Inr p \<and>
               get_in r [''metadata'', ''uid''] PNone = Inr u \<and>
               get_in r [''metadata'', ''iteration''] (PInt 0) = Inr it \<and>
               (is_iteration it \<longrightarrow>
                  self' = self\<lparr>db_conn := Some (db_update_run db ups (run_key repr u it) p)\<rparr>)))"
proof (intro conjI allI impI)
  show "db_conn (store_run repr self (Some t)) =
           Some (db_store_run db (to_dict t)
                   (run_key repr (uid (metadata t)) (iteration (metadata t))) (project (metadata t)))"
    using assms by (simp add: store_run_def Let_def code_key_run_key)
  show "get_db_run repr self (Some t) =
           db_read_run db (run_key repr (uid (metadata t)) (iteration (metadata t)))
             (project (metadata t))"
    using assms by (simp add: get_db_run_def Let_def code_key_run_key)
next
  obtain d where d: "to_dict t = PDict d" using to_dict_PDict by blast
  from post_run_state_total[OF to_dict_dict_under] obtain r ups where
    st: "post_run_state now (to_dict t) err = Inr (r, ups)" by blast
  note md = post_run_state_metadata(1)[OF st]
  from to_dict_metadata(3)[OF assms(2), of repr "uid (metadata t)"] obtain it where
    it: "get_in (to_dict t) [''metadata'', ''iteration''] (PInt 0) = Inr it"
    and k: "run_key repr (uid (metadata t)) it = run_key repr (uid (metadata t)) (iteration (metadata t))"
    and tr: "truthy it = truthy (iteration (metadata t))" by blast
  have ii: "is_iteration it"
    using it assms(2) by (auto simp: to_dict_def dict_item_def opt_item_def split: pyval.splits if_splits)
  have "post_run repr now self (to_dict t) task err =
          (Inr r, self\<lparr>db_conn := Some (db_update_run db ups
                   (run_key repr (uid (metadata t)) (iteration (metadata t)))
                   (project (metadata t)))\<rparr>)"
    using d st assms(1) md to_dict_metadata(1,2)[of t] it k code_key_run_key[OF ii, of repr "uid (metadata t)"]
    by (simp add: post_run_def Let_def del: get_in.simps update_in.simps)
  with st post_run_state_updates[OF st]
  show "\<exists>r ups. post_run_state now (to_dict t) err = Inr (r, ups) \<and>
            map_of ups ''status.state'' \<noteq> None \<and>
            post_run repr now self (to_dict t) task err =
              (Inr r, self\<lparr>db_conn := Some (db_update_run db ups
                   (run_key repr (uid (metadata t)) (iteration (metadata t)))
                   (project (metadata t)))\<rparr>)" by auto
next
  fix resp r self'
  assume p: "post_run repr now self resp task err = (Inr r, self')" and n: "r \<noteq> PNone"
  from post_run_with_store[OF assms(1) p n] obtain ups p u it where
    s: "post_run_state now
          (if resp = PNone \<and> task \<noteq> None then get_db_run repr self task else resp) err
          = Inr (r, ups)"
    and g: "get_in r [''metadata'', ''project''] PNone = Inr p"
       "get_in r [''metadata'', ''uid''] PNone = Inr u"
       "get_in r [''metadata'', ''iteration''] (PInt 0) = Inr it"
    and e: "self' = self\<lparr>db_conn := Some (db_update_run db ups
                     (if truthy it then PStr (py_str repr u @ ''-'' @ py_str repr it) else u) p)\<rparr>"
    by blast
  from post_run_state_updates[OF s] have m: "map_of ups ''status.state'' \<noteq> None" by auto
  have "is_iteration it \<longrightarrow>
          self' = self\<lparr>db_conn := Some (db_update_run db ups (run_key repr u it) p)\<rparr>"
    using e by (simp add: code_key_run_key)
  with s g m
  show "\<exists>ups p u it.
               post_run_state now
                 (if resp = PNone \<and> task \<noteq> None then get_db_run repr self task else resp) err
                 = Inr (r, ups) \<and>
               map_of ups ''status.state'' \<noteq> None \<and>
               get_in r [''metadata'', ''project''] PNone = Inr p \<and>
               get_in r [''metadata'', ''uid''] PNone = Inr u \<and>
               get_in r [''metadata'', ''iteration''] (PInt 0) = Inr it \<and>
               (is_iteration it \<longrightarrow>
                  self' = self\<lparr>db_conn := Some (db_update_run db ups (run_key repr u it) p)\<rparr>)"
    by blast
qed

text \<open>Witness for C9: iteration 3 of run \<open>u1\<close> is keyed \<open>u1-3\<close>, iteration 0 is keyed
  \<open>u1\<close>.\<close>

theorem run_key_consistent_witness:
  "db_conn (base_runtime (Some Map.empty)) = Some Map.empty \<and>
   is_iteration (iteration (metadata (task_object 3))) \<and>
   run_key no_repr (uid (metadata (task_object 3))) (iteration (metadata (task_object 3))) = PStr ''u1-3'' \<and>
   run_key no_repr (uid (metadata (task_object 0))) (iteration (metadata (task_object 0))) = PStr ''u1'' \<and>
   db_conn (store_run no_repr (base_runtime (Some Map.empty)) (Some (task_object 3))) =
     Some (db_store_run Map.empty (to_dict (task_object 3)) (PStr ''u1-3'') (PStr ''p''))"
proof -
  have a: "db_conn (base_runtime (Some Map.empty)) = Some Map.empty"
    by (simp add: base_runtime_def)
  have b: "is_iteration (iteration (metadata (task_object 3)))"
    by (simp add: task_object_def)
  have c: "run_key no_repr (uid (metadata (task_object 3))) (iteration (metadata (task_object 3))) = PStr ''u1-3''"
    by (simp add: task_object_def run_key_def dec_int_def dec_nat.simps digit_char_def)
  have d: "run_key no_repr (uid (metadata (task_object 0))) (iteration (metadata (task_object 0))) = PStr ''u1''"
    by (simp add: task_object_def run_key_def)
  have e: "project (metadata (task_object 3)) = PStr ''p''" by (simp add: task_object_def)
  from run_key_consistent[OF a b, of no_repr "''t0''" PNone None] a b c d e show ?thesis by simp
qed

section \<open>Properties of the build gate\<close>

text \<open>
  C6 (as stated, refuted). A runtime with no build commands, no source, mode \<open>pass\<close> and an
  image, whose build pod is still set while it is not built: the gate asks for the pod's
  status first and, the pod still running, returns \<open>False\<close> and leaves the runtime as it
  was, not marked built.
\<close>

theorem build_gate_pending_counterexample:
  "priv_build_image (\<lambda>pod. ''running'') dispatching_builder
     (pass_runtime ''img:1'' (Some ''python:3.6'') (Some ''build-pod-1'') False) None
   = (Inr (PBool False), pass_runtime ''img:1'' (Some ''python:3.6'') (Some ''build-pod-1'') False, None)"
  by (simp add: priv_build_image_def pass_runtime_def)

text \<open>
  C6 (amended). For a runtime with no build commands, no source and mode \<open>pass\<close> that has
  no build pod to poll (it is already built, or its build pod is unset), the gate raises
  \<^verbatim>\<open>RunError('image or base_image must be specified')\<close> exactly when both the image and
  the base image are unset; otherwise it returns \<open>True\<close>, marks the runtime built and
  keeps the explicit image or, failing that, adopts the base image. The result does not
  depend on the pod status or on the builder: neither is contacted.
\<close>

theorem build_gate_not_required:
  assumes "commands (build self) = []" and "unset (source (build self))"
    and "mode (spec self) = ''pass''"
    and "is_built self \<or> unset (build_pod (build self))"
  shows "priv_build_image get_pod_status build_runtime self execution =
     (if image (spec self) = [] \<and> unset (base_image (build self))
      then (Inl (RunError (PStr ''image or base_image must be specified'')), self, execution)
      else (Inr (PBool True),
            self\<lparr>spec := (spec self)\<lparr>image :=
                    (if image (spec self) \<noteq> [] then image (spec self)
                     else (case base_image (build self) of Some b \<Rightarrow> b | None \<Rightarrow> []))\<rparr>,
                 is_built := True\<rparr>,
            execution))"
  using assms
  by (auto simp: priv_build_image_def unset_def split: option.splits)

text \<open>Witness for C6 (amended): the base image adopted, and the error without any image.\<close>

theorem build_gate_not_required_witness:
  "priv_build_image (\<lambda>pod. ''failed'') dispatching_builder (pass_runtime '''' (Some ''python:3.6'') None False) None
     = (Inr (PBool True), pass_runtime ''python:3.6'' (Some ''python:3.6'') None True, None) \<and>
   priv_build_image (\<lambda>pod. ''failed'') dispatching_builder (pass_runtime '''' None None False) None
     = (Inl (RunError (PStr ''image or base_image must be specified'')), pass_runtime '''' None None False, None)"
proof -
  have a: "commands (build (pass_runtime i b None False)) = []"
    "unset (source (build (pass_runtime i b None False)))"
    "mode (spec (pass_runtime i b None False)) = ''pass''"
    "is_built (pass_runtime i b None False) \<or> unset (build_pod (build (pass_runtime i b None False)))"
    for i b
    by (simp_all add: pass_runtime_def unset_def)
  from build_gate_not_required[OF a, where get_pod_status = "\<lambda>pod. ''failed''"
      and build_runtime = dispatching_builder and execution = None]
    build_gate_not_required[OF a, where get_pod_status = "\<lambda>pod. ''failed''"
      and build_runtime = dispatching_builder and execution = None]
  show ?thesis by (simp add: pass_runtime_def unset_def)
qed

text \<open>
  C8 (the code departs from the claim). A runtime with build commands and no image: the
  first \<^verbatim>\<open>_build_image\<close> call dispatches a build (flag false), the second finds the build
  pod succeeded and marks the runtime built (flag true) without setting \<^verbatim>\<open>spec.image\<close>,
  and the third, finding the flag true but no image, falls through to the builder again
  and stores its answer: the flag is false again.
\<close>

theorem built_flag_reset_after_poll:
  "is_built (build_session [(\<lambda>pod. ''running'', dispatching_builder)] (cmd_runtime None False)) = False \<and>
   is_built (build_session [(\<lambda>pod. ''running'', dispatching_builder),
                            (\<lambda>pod. ''succeeded'', dispatching_builder)] (cmd_runtime None False)) = True \<and>
   is_built (build_session [(\<lambda>pod. ''running'', dispatching_builder),
                            (\<lambda>pod. ''succeeded'', dispatching_builder),
                            (\<lambda>pod. ''running'', dispatching_builder)] (cmd_runtime None False)) = False"
  by (simp add: priv_build_image_def cmd_runtime_def dispatching_builder_def)

text \<open>A built runtime with an image: the gate returns \<open>True\<close> and keeps both.\<close>

lemma priv_build_image_ready_absorbing:
  assumes "is_built self" and "image (spec self) \<noteq> []"
  shows "fst (priv_build_image get_pod_status build_runtime self execution) = Inr (PBool True) \<and>
         is_built (fst (snd (priv_build_image get_pod_status build_runtime self execution))) \<and>
         image (spec (fst (snd (priv_build_image get_pod_status build_runtime self execution)))) \<noteq> []"
  using assms by (auto simp: priv_build_image_def split: option.splits)

text \<open>
  What does hold of the flag: on a built runtime that has an image no sequence of calls
  resets it.
\<close>

lemma built_flag_stays_with_image:
  "is_built self \<Longrightarrow> image (spec self) \<noteq> [] \<Longrightarrow>
   is_built (build_session calls self) \<and> image (spec (build_session calls self)) \<noteq> []"
proof (induction calls arbitrary: self)
  case Nil
  then show ?case by simp
next
  case (Cons c calls)
  obtain g b where c: "c = (g, b)" by (cases c)
  from priv_build_image_ready_absorbing[OF Cons.prems, of g b None]
  show ?case unfolding c by (simp add: Cons.IH)
qed

section \<open>Properties of \<^verbatim>\<open>run\<close>\<close>

text \<open>No method called by \<^verbatim>\<open>run\<close> touches \<^verbatim>\<open>self.spec\<close>.\<close>

lemma store_run_spec [simp]: "spec (store_run repr self t) = spec self"
  by (simp add: store_run_def Let_def split: option.splits)

lemma post_run_specD:
  "post_run repr now self resp t err = (out, self') \<Longrightarrow> spec self' = spec self"
  by (auto simp: post_run_def Let_def simp del: get_in.simps update_in.simps split_dot.simps
      split: if_splits pyval.splits sum.splits option.splits prod.splits)

lemma run_many_specD:
  "run_many E self tasks i results = (out, self') \<Longrightarrow> spec self' = spec self"
proof (induction tasks arbitrary: self i results)
  case Nil
  then show ?case by simp
next
  case (Cons task tasks)
  from Cons.prems show ?case
    by (auto simp: Let_def split: sum.splits prod.splits py_error.splits
        dest!: post_run_specD Cons.IH)
qed

lemma results_to_iter_scan_specD:
  "results_to_iter_scan E t0 runspec self results i acc = (out, self') \<Longrightarrow> spec self' = spec self"
proof (induction results arbitrary: self i acc)
  case Nil
  then show ?case by simp
next
  case (Cons task rest)
  obtain a b c d where acc: "acc = (a, b, c, d)" by (cases acc)
  from Cons.prems show ?case unfolding acc
    by (auto simp: Let_def simp del: get_in.simps split: sum.splits prod.splits if_splits
        dest!: post_run_specD Cons.IH)
qed

lemma results_to_iter_specD:
  "results_to_iter E t0 self results runspec ex = (out, self', rest) \<Longrightarrow> spec self' = spec self"
  by (auto simp: results_to_iter_def Let_def split: sum.splits prod.splits if_splits
      dest!: results_to_iter_scan_specD)

lemma run_finish_spec [simp]: "snd (run_finish runspec result self) = self"
  by (simp add: run_finish_def)

lemma run_batch_spec [simp]: "spec (snd (run_batch E self runspec execution tasks)) = spec self"
  by (auto simp: run_batch_def Let_def split: prod.splits sum.splits
      dest!: run_many_specD results_to_iter_specD)

lemma run_single_spec [simp]: "spec (snd (run_single E self runspec)) = spec self"
  by (auto simp: run_single_def Let_def split: prod.splits sum.splits py_error.splits
      dest!: post_run_specD)




text \<open>
  C7 (the code departs from the claim). A single run with a connected store whose backend
  raises \<^verbatim>\<open>RunError('boom')\<close>: the handler persists the error state (the store holds
  state \<open>error\<close> with the error under the run's key), but it does not set
  \<^verbatim>\<open>runspec.status.state\<close> as the handler of \<^verbatim>\<open>_run_many\<close> does, so the closing test
  \<^verbatim>\<open>runspec.status.state == 'error'\<close> fails and \<^verbatim>\<open>run()\<close> returns the run to the caller
  instead of raising.
\<close>

theorem run_single_error_returns_normally:
  "fst (run (example_env failing_backend None) (base_runtime (Some Map.empty)) (task_object 0) [])
     = Inr (PDict [(''metadata'', PDict [(''uid'', PStr ''u1''), (''project'', PStr ''p''),
                                         (''iteration'', PInt 0)]),
                   (''status'', PDict [(''state'', PStr ''error''),
                                       (''error'', PExc (PStr ''boom''))])]) \<and>
   db_read_run (the (db_conn (snd (run (example_env failing_backend None)
                                    (base_runtime (Some Map.empty)) (task_object 0) []))))
       (PStr ''u1'') (PStr ''p'')
     = PDict [(''metadata'', PDict [(''uid'', PStr ''u1''), (''project'', PStr ''p''),
                                    (''iteration'', PInt 0)]),
              (''status'', PDict [(''last_update'', PStr ''2019-11-01 10:00:00''),
                                  (''state'', PStr ''error''),
                                  (''error'', PExc (PStr ''boom''))])]"
  by (simp add: run_def run_single_def run_finish_def example_env_def failing_backend_def
      base_runtime_def task_object_def
      store_run_def post_run_def get_db_run_def post_run_state_def to_dict_def dict_item_def
      opt_item_def db_store_run_def db_read_run_def db_update_run_def Let_def
      dec_nat.simps digit_char_def)

section \<open>The empty batch\<close>








section \<open>The batch isolates failing tasks\<close>































text \<open>
  Whatever the tasks and the backend do, \<^verbatim>\<open>_run_many\<close> never raises \<^verbatim>\<open>RunError\<close>: the
  lookups, the updates and \<^verbatim>\<open>_post_run\<close> raise other exceptions only, and a
  \<^verbatim>\<open>RunError\<close> of the backend is caught by the handler.
\<close>

lemma get_in_error: "get_in obj ks d = Inl e \<Longrightarrow> e = TypeError"
  by (induction obj ks d rule: get_in.induct)
     (auto split: if_splits pyval.splits option.splits)

lemma update_in_error:
  "update_in obj ks v = Inl e \<Longrightarrow> e = TypeError \<or> e = AttributeError \<or> e = IndexError"
  by (induction obj ks v rule: update_in.induct) (auto split: sum.splits)

lemma post_run_state_error:
  assumes "post_run_state now resp err = Inl e"
  shows "e = TypeError \<or> e = AttributeError \<or> e = IndexError"
  using assms
  by (auto simp: post_run_state_def Let_def simp del: get_in.simps update_in.simps
      split: sum.splits if_splits dest: get_in_error update_in_error)

lemma post_run_error:
  assumes "post_run repr now self resp task err = (Inl e, self')"
  shows "e \<noteq> RunError v"
  using assms
  by (auto simp: post_run_def Let_def simp del: get_in.simps update_in.simps split_dot.simps
      split: if_splits pyval.splits sum.splits option.splits prod.splits
      dest: get_in_error post_run_state_error)

lemma run_many_never_raises_RunError:
  "fst (run_many E self tasks i res) \<noteq> Inl (RunError v)"
proof (induction tasks arbitrary: self i res)
  case Nil
  then show ?case by simp
next
  case (Cons task tasks)
  show ?case
    by (auto simp: Let_def Cons.IH split: sum.splits prod.splits py_error.splits
        dest: post_run_error)
qed




end
